theory Spec2Isabelle
  imports Complex_Main "HOL-Library.Sublist"
begin

section \<open>Strings\<close>

text \<open>
  Review texts are modelled as ASCII strings (\<^typ>\<open>string\<close>, one \<^typ>\<open>char\<close> per
  character). On ASCII, Python's \<^verbatim>\<open>str.lower()\<close> maps \<^verbatim>\<open>A\<close>..\<^verbatim>\<open>Z\<close> (codes 65..90)
  to \<^verbatim>\<open>a\<close>..\<^verbatim>\<open>z\<close> and leaves every other character alone, and the characters
  that \<^verbatim>\<open>str.strip()\<close> and \<^verbatim>\<open>str.split()\<close> treat as whitespace are the codes
  9..13 and 28..32.
\<close>

definition is_upper :: "char \<Rightarrow> bool" where
  "is_upper c = (65 \<le> (of_char c :: nat) \<and> (of_char c :: nat) \<le> 90)"

definition lower_char :: "char \<Rightarrow> char" where
  "lower_char c = (if is_upper c then char_of ((of_char c :: nat) + 32) else c)"

definition lower :: "string \<Rightarrow> string" where
  "lower s = map lower_char s"

definition is_space :: "char \<Rightarrow> bool" where
  "is_space c = ((9 \<le> (of_char c :: nat) \<and> (of_char c :: nat) \<le> 13)
                 \<or> (28 \<le> (of_char c :: nat) \<and> (of_char c :: nat) \<le> 32))"

definition lstrip :: "string \<Rightarrow> string" where
  "lstrip s = dropWhile is_space s"

definition rstrip :: "string \<Rightarrow> string" where
  "rstrip s = rev (dropWhile is_space (rev s))"

definition strip :: "string \<Rightarrow> string" where
  "strip s = rstrip (lstrip s)"

text \<open>\<^verbatim>\<open>w in s\<close> on strings: \<^term>\<open>w\<close> occurs in \<^term>\<open>s\<close> as a contiguous substring.\<close>

fun str_in :: "string \<Rightarrow> string \<Rightarrow> bool" where
  "str_in w [] = (w = [])"
| "str_in w (c # s) = (prefix w (c # s) \<or> str_in w s)"

text \<open>\<^verbatim>\<open>any(word in text for word in words)\<close>\<close>

definition any_in :: "string list \<Rightarrow> string \<Rightarrow> bool" where
  "any_in words text = list_ex (\<lambda>word. str_in word text) words"

section \<open>Topic categorisation (03_ai_insights.py)\<close>

text \<open>The keyword lists of the \<^verbatim>\<open>if\<close>/\<open>elif\<close> chain of
  \<^verbatim>\<open>categorize_review_rule_based\<close>, in the order of the chain.\<close>

definition shipping_words :: "string list" where
  "shipping_words = [''shipping'', ''delivery'', ''arrived'', ''package'', ''late'',
                     ''delayed'', ''never received'']"

definition service_words :: "string list" where
  "service_words = [''customer service'', ''support'', ''refund'', ''return'', ''customer'']"

definition quality_words :: "string list" where
  "quality_words = [''quality'', ''defective'', ''broke'', ''broken'', ''damaged'', ''poor'']"

definition taste_words :: "string list" where
  "taste_words = [''taste'', ''flavor'', ''bland'', ''bitter'', ''delicious'', ''disgusting'',
                  ''stale'']"

definition price_words :: "string list" where
  "price_words = [''price'', ''expensive'', ''overpriced'', ''cost'', ''waste'', ''money'']"

definition packaging_words :: "string list" where
  "packaging_words = [''packaging'', ''box'', ''wrapped'', ''crushed'']"

definition categorize_review_rule_based :: "string \<Rightarrow> string" where
  "categorize_review_rule_based review_text =
     (let text_lower = lower review_text in
      if any_in shipping_words text_lower then ''Shipping/Delivery''
      else if any_in service_words text_lower then ''Customer Service''
      else if any_in quality_words text_lower then ''Product Quality''
      else if any_in taste_words text_lower then ''Taste/Flavor''
      else if any_in price_words text_lower then ''Price/Value''
      else if any_in packaging_words text_lower then ''Packaging''
      else ''Other'')"

text \<open>The chain read as an ordered list of (label, keyword list) rules, and the
  first-match-wins scan over such a list that the specification describes.\<close>

definition priority_rules :: "(string \<times> string list) list" where
  "priority_rules =
     [(''Shipping/Delivery'', shipping_words),
      (''Customer Service'', service_words),
      (''Product Quality'', quality_words),
      (''Taste/Flavor'', taste_words),
      (''Price/Value'', price_words),
      (''Packaging'', packaging_words)]"

fun first_match :: "(string \<times> string list) list \<Rightarrow> string \<Rightarrow> string" where
  "first_match [] text = ''Other''"
| "first_match ((label, words) # rules) text =
     (if any_in words text then label else first_match rules text)"

definition topic_labels :: "string list" where
  "topic_labels = [''Shipping/Delivery'', ''Customer Service'', ''Product Quality'',
                   ''Taste/Flavor'', ''Price/Value'', ''Packaging'', ''Other'']"

text \<open>The \<^verbatim>\<open>topic_keywords\<close> dictionary of \<^verbatim>\<open>extract_topics_rule_based\<close>, in
  insertion order.\<close>

definition topic_keywords :: "(string \<times> string list) list" where
  "topic_keywords =
     [(''Product Quality'', [''quality'', ''defective'', ''broke'', ''broken'', ''damaged'',
                            ''poor'', ''cheap'', ''terrible'', ''awful'', ''bad'']),
      (''Shipping/Delivery'', [''shipping'', ''delivery'', ''arrived'', ''package'', ''late'',
                              ''delayed'', ''never received'', ''lost'', ''weeks'']),
      (''Customer Service'', [''customer service'', ''support'', ''refund'', ''return'',
                             ''response'', ''contact'', ''help'', ''customer'']),
      (''Price/Value'', [''price'', ''expensive'', ''overpriced'', ''cost'', ''value'',
                        ''money'', ''worth'', ''waste'']),
      (''Packaging'', [''packaging'', ''box'', ''wrapped'', ''container'', ''sealed'',
                      ''package'', ''crushed'']),
      (''Taste/Flavor'', [''taste'', ''flavor'', ''bland'', ''bitter'', ''sweet'', ''salty'',
                         ''disgusting'', ''delicious'', ''stale''])]"

text \<open>Both components test a topic the same way: lowercase the text, then ask whether
  any keyword of the topic's list occurs in it. \<^term>\<open>matches_topic rules T s\<close> is that test
  for topic \<^term>\<open>T\<close> against a rule table (\<^const>\<open>None\<close> when the table has no such topic).\<close>

definition matches_topic :: "(string \<times> string list) list \<Rightarrow> string \<Rightarrow> string \<Rightarrow> bool option" where
  "matches_topic rules T s = map_option (\<lambda>words. any_in words (lower s)) (map_of rules T)"

definition all_keywords :: "string list" where
  "all_keywords = concat (map snd priority_rules) @ concat (map snd topic_keywords)"

section \<open>Errors and numeric primitives\<close>

datatype error = ValueError | ZeroDivisionError

text \<open>
  Decimal rendering of a natural number (\<^verbatim>\<open>str(i)\<close>, \<^verbatim>\<open>{i}\<close> in an f-string) and the
  \<^verbatim>\<open>{n:,}\<close> format with thousands separators.
\<close>

definition digit_char :: "nat \<Rightarrow> char" where
  "digit_char d = char_of (48 + d)"

fun str_nat :: "nat \<Rightarrow> string" where
  "str_nat n = (if n < 10 then [digit_char n] else str_nat (n div 10) @ [digit_char (n mod 10)])"

declare str_nat.simps [simp del]

fun fmt_thousands :: "nat \<Rightarrow> string" where
  "fmt_thousands n =
     (if n < 1000 then str_nat n
      else fmt_thousands (n div 1000) @ '','' @
           [digit_char (n mod 1000 div 100), digit_char (n mod 100 div 10), digit_char (n mod 10)])"

declare fmt_thousands.simps [simp del]

text \<open>\<^verbatim>\<open>sep.join(xs)\<close>\<close>

fun join :: "string \<Rightarrow> string list \<Rightarrow> string" where
  "join sep [] = []"
| "join sep [x] = x"
| "join sep (x # y # ys) = x @ sep @ join sep (y # ys)"

text \<open>
  \<^verbatim>\<open>sorted(xs, key=f, reverse=True)\<close>: Python reverses the list, sorts it stably in
  ascending key order and reverses the result, so equal keys keep their input order.
\<close>

definition sorted_reverse :: "('a \<Rightarrow> 'k::linorder) \<Rightarrow> 'a list \<Rightarrow> 'a list" where
  "sorted_reverse f xs = rev (sort_key f (rev xs))"

text \<open>
  The floating-point primitives are parameters of the model, so that every theorem holds
  for IEEE double arithmetic as for any other reading of them:
  \<^item> \<open>pct k n\<close> stands for \<^verbatim>\<open>count / total * 100\<close>, a value of an ordered type \<open>'f\<close>;
  \<^item> \<open>mean xs\<close> stands for the mean of a non-empty column;
  \<^item> \<open>fmt d x\<close> stands for the format \<^verbatim>\<open>{x:.df}\<close> (\<open>d\<close> decimal places).

  For evaluation on concrete inputs the theory also gives one reading of them in exact
  rational arithmetic: \<open>exact_pct\<close>, \<open>exact_mean\<close> and \<open>fixed_fmt\<close> (rounding half to even).
\<close>

definition exact_pct :: "nat \<Rightarrow> nat \<Rightarrow> rat" where
  "exact_pct k n = of_nat k / of_nat n * 100"

definition exact_mean :: "int list \<Rightarrow> rat" where
  "exact_mean xs = of_int (sum_list xs) / of_nat (length xs)"

definition round_half_even :: "rat \<Rightarrow> int" where
  "round_half_even q =
     (let f = \<lfloor>q\<rfloor>; r = q - of_int f
      in if r < 1 / 2 then f else if 1 / 2 < r then f + 1 else if even f then f else f + 1)"

definition fixed_fmt :: "nat \<Rightarrow> rat \<Rightarrow> string" where
  "fixed_fmt d q =
     (let n = round_half_even (\<bar>q\<bar> * 10 ^ d);
          whole = str_nat (nat n div 10 ^ d);
          frac = str_nat (nat n mod 10 ^ d);
          sign = (if q < 0 \<and> n \<noteq> 0 then ''-'' else [])
      in if d = 0 then sign @ whole
         else sign @ whole @ ''.'' @ replicate (d - length frac) (CHR ''0'') @ frac)"

section \<open>Data cleaning (01_data_cleaning.py)\<close>

text \<open>
  A row of the raw table: the columns \<^verbatim>\<open>Text\<close>, \<^verbatim>\<open>Score\<close> and \<^verbatim>\<open>Time\<close>, each possibly
  missing (\<^const>\<open>None\<close> is pandas' NaN). A data frame is a list of rows, each with its index
  label; \<^verbatim>\<open>read_csv\<close> labels the rows \<open>0, 1, 2, ...\<close> and every later step keeps the label
  of the rows it keeps.
\<close>

record review =
  Text :: "string option"
  Score :: "int option"
  Time :: "int option"

record clean_review = review +
  review_length :: "nat option"
  word_count :: "nat option"

type_synonym 'a frame = "(nat \<times> 'a) list"

definition range_index :: "'a list \<Rightarrow> 'a frame" where
  "range_index rows = zip [0 ..< length rows] rows"

text \<open>
  Step 0, sampling. \<^verbatim>\<open>df.sample(n=sample_size, random_state=42)\<close> is the library's; it is
  the parameter \<open>sample\<close>, applied to the requested size, the seed and the frame. The
  condition is Python's \<^verbatim>\<open>sample_size and sample_size < len(df)\<close>: \<^verbatim>\<open>None\<close> and \<^verbatim>\<open>0\<close> are
  both false.
\<close>

definition df_sample ::
  "(int \<Rightarrow> nat \<Rightarrow> 'a frame \<Rightarrow> error + 'a frame) \<Rightarrow> int option \<Rightarrow> 'a frame \<Rightarrow> error + 'a frame" where
  "df_sample sample sample_size df =
     (case sample_size of
        None \<Rightarrow> Inr df
      | Some n \<Rightarrow> if n \<noteq> 0 \<and> n < int (length df) then sample n 42 df else Inr df)"

text \<open>Step 1, \<^verbatim>\<open>dropna(subset=['Text', 'Score'])\<close>.\<close>

definition dropna :: "review frame \<Rightarrow> review frame" where
  "dropna df = filter (\<lambda>(i, r). Text r \<noteq> None \<and> Score r \<noteq> None) df"

text \<open>Step 2, \<^verbatim>\<open>drop_duplicates(subset=['Text'])\<close>: a row is dropped when an earlier row
  has the same \<^verbatim>\<open>Text\<close>. The column still holds the text as read.\<close>

fun drop_seen :: "string option list \<Rightarrow> review frame \<Rightarrow> review frame" where
  "drop_seen seen [] = []"
| "drop_seen seen ((i, r) # df) =
     (if Text r \<in> set seen then drop_seen seen df
      else (i, r) # drop_seen (Text r # seen) df)"

definition drop_duplicates :: "review frame \<Rightarrow> review frame" where
  "drop_duplicates df = drop_seen [] df"

text \<open>Step 3, \<^verbatim>\<open>.str.lower()\<close> then \<^verbatim>\<open>.str.strip()\<close> on the \<^verbatim>\<open>Text\<close> column.\<close>

definition str_lower :: "review frame \<Rightarrow> review frame" where
  "str_lower df = map (\<lambda>(i, r). (i, r\<lparr>Text := map_option lower (Text r)\<rparr>)) df"

definition str_strip :: "review frame \<Rightarrow> review frame" where
  "str_strip df = map (\<lambda>(i, r). (i, r\<lparr>Text := map_option strip (Text r)\<rparr>)) df"

text \<open>Step 4, \<^verbatim>\<open>df_clean[df_clean['Text'].str.len() > 20]\<close>; a missing text compares
  false.\<close>

definition filter_short :: "review frame \<Rightarrow> review frame" where
  "filter_short df =
     filter (\<lambda>(i, r). case Text r of None \<Rightarrow> False | Some t \<Rightarrow> 20 < length t) df"

text \<open>\<^verbatim>\<open>str.split()\<close> with no argument: the maximal runs of non-whitespace characters.
  The first argument is the run being read.\<close>

fun split_ws :: "string \<Rightarrow> string \<Rightarrow> string list" where
  "split_ws w [] = (if w = [] then [] else [w])"
| "split_ws w (c # cs) =
     (if is_space c then (if w = [] then split_ws [] cs else w # split_ws [] cs)
      else split_ws (w @ [c]) cs)"

text \<open>Step 6, the columns \<^verbatim>\<open>review_length\<close> and \<^verbatim>\<open>word_count\<close>. (Step 5 adds
  the calendar columns derived from \<^verbatim>\<open>Time\<close>; it drops no row and leaves \<^verbatim>\<open>Text\<close> alone, and
  the model leaves it out.)\<close>

definition add_features :: "review frame \<Rightarrow> clean_review frame" where
  "add_features df =
     map (\<lambda>(i, r). (i, \<lparr>Text = Text r, Score = Score r, Time = Time r,
                          review_length = map_option length (Text r),
                          word_count = map_option (\<lambda>t. length (split_ws [] t)) (Text r)\<rparr>)) df"

definition clean_frame :: "review frame \<Rightarrow> clean_review frame" where
  "clean_frame df =
     add_features (filter_short (str_strip (str_lower (drop_duplicates (dropna df)))))"

text \<open>
  The whole function, on the rows read from the file. In the model it fails only when the
  sampler does. Two failures of the library are outside it: the \<^verbatim>\<open>.str\<close> accessor raises
  on a \<^verbatim>\<open>Text\<close> column that holds no string at all, and the date conversion of step 5
  raises on a timestamp out of range. What is proved of the records the model returns is
  proved of the records of every run that gets that far.
\<close>

definition clean_reviews ::
  "(int \<Rightarrow> nat \<Rightarrow> review frame \<Rightarrow> error + review frame) \<Rightarrow> int option \<Rightarrow> review list
     \<Rightarrow> error + clean_review frame" where
  "clean_reviews sample sample_size rows =
     (case df_sample sample sample_size (range_index rows) of
        Inl e \<Rightarrow> Inl e
      | Inr s \<Rightarrow> Inr (clean_frame s))"

text \<open>Two views of \<^const>\<open>clean_frame\<close> for the proofs: the rows, as read, that survive the
  cleaning, and what the cleaning makes of one of them.\<close>

definition kept_rows :: "review frame \<Rightarrow> review frame" where
  "kept_rows df =
     filter (\<lambda>(i, r). case Text r of None \<Rightarrow> False | Some t \<Rightarrow> 20 < length (strip (lower t)))
            (drop_duplicates (dropna df))"

definition clean_row :: "review \<Rightarrow> clean_review" where
  "clean_row r =
     (let t = map_option (\<lambda>t. strip (lower t)) (Text r)
      in \<lparr>Text = t, Score = Score r, Time = Time r,
          review_length = map_option length t,
          word_count = map_option (\<lambda>t. length (split_ws [] t)) t\<rparr>)"

text \<open>A sampler to evaluate the model with: it rejects a negative size, as the library
  does, and otherwise returns the first \<open>n\<close> rows whatever the seed.\<close>

definition sample_first :: "int \<Rightarrow> nat \<Rightarrow> 'a frame \<Rightarrow> error + 'a frame" where
  "sample_first n seed df = (if n < 0 then Inl ValueError else Inr (take (nat n) df))"

text \<open>Rows to evaluate the cleaner on: the second differs from the first only in case and
  surrounding blanks, the third repeats the first, the fourth has no score, the fifth is
  short.\<close>

definition example_rows :: "review list" where
  "example_rows =
     [\<lparr>Text = Some ''Great Product, would buy again!'', Score = Some 5, Time = None\<rparr>,
      \<lparr>Text = Some ''  great product, would buy AGAIN! '', Score = Some 4, Time = None\<rparr>,
      \<lparr>Text = Some ''Great Product, would buy again!'', Score = Some 1, Time = Some 1300000000\<rparr>,
      \<lparr>Text = Some ''The delivery was three weeks late'', Score = None, Time = None\<rparr>,
      \<lparr>Text = Some ''Too expensive'', Score = Some 2, Time = None\<rparr>]"

section \<open>Sentiment category (02_sentiment_analysis.py)\<close>

text \<open>
  A Python float is not-a-number, an infinity, or a finite value; a finite double denotes
  a real number and \<^verbatim>\<open>>=\<close>, \<^verbatim>\<open><=\<close> compare those numbers exactly. Every comparison with
  NaN is false. No double lies strictly between the decimal 0.05 and the double that the
  literal \<^verbatim>\<open>0.05\<close> denotes, so on doubles comparing with the literal is comparing with
  \<open>5 / 100\<close>.
\<close>

datatype pyfloat = NaN | NegInf | Fin real | PosInf

fun float_ge :: "pyfloat \<Rightarrow> real \<Rightarrow> bool" where
  "float_ge NaN c = False"
| "float_ge NegInf c = False"
| "float_ge (Fin x) c = (c \<le> x)"
| "float_ge PosInf c = True"

fun float_le :: "pyfloat \<Rightarrow> real \<Rightarrow> bool" where
  "float_le NaN c = False"
| "float_le NegInf c = True"
| "float_le (Fin x) c = (x \<le> c)"
| "float_le PosInf c = False"

definition categorize_sentiment :: "pyfloat \<Rightarrow> string" where
  "categorize_sentiment score =
     (if float_ge score (5 / 100) then ''Positive''
      else if float_le score (- (5 / 100)) then ''Negative''
      else ''Neutral'')"

section \<open>Topic report (03_ai_insights.py)\<close>

text \<open>\<^verbatim>\<open>topic_counts[topic] += 1\<close> on the dictionary of counters, kept in insertion
  order.\<close>

definition incr :: "string \<Rightarrow> (string \<times> nat) list \<Rightarrow> (string \<times> nat) list" where
  "incr topic counts = map (\<lambda>(k, c). if k = topic then (k, c + 1) else (k, c)) counts"

text \<open>The inner loop over \<^verbatim>\<open>topic_keywords.items()\<close> for one lowercased text.\<close>

fun count_text ::
  "string \<Rightarrow> (string \<times> string list) list \<Rightarrow> (string \<times> nat) list \<Rightarrow> (string \<times> nat) list" where
  "count_text text_lower [] counts = counts"
| "count_text text_lower ((topic, keywords) # items) counts =
     count_text text_lower items
       (if any_in keywords text_lower then incr topic counts else counts)"

text \<open>The outer loop over the texts of the negative reviews, from all counters at 0.\<close>

definition topic_counts :: "string list \<Rightarrow> (string \<times> nat) list" where
  "topic_counts texts =
     foldl (\<lambda>counts text. count_text (lower text) topic_keywords counts)
           (map (\<lambda>(topic, keywords). (topic, 0)) topic_keywords) texts"

text \<open>The comprehension \<^verbatim>\<open>{topic: count / total * 100 for ... if count > 0}\<close>: the
  condition is tested first, and the division raises when \<^verbatim>\<open>total\<close> is 0.\<close>

fun topic_percentages ::
  "(nat \<Rightarrow> nat \<Rightarrow> 'f) \<Rightarrow> (string \<times> nat) list \<Rightarrow> nat \<Rightarrow> error + (string \<times> 'f) list" where
  "topic_percentages pct [] n = Inr []"
| "topic_percentages pct ((topic, c) # counts) n =
     (if 0 < c then
        (if n = 0 then Inl ZeroDivisionError
         else case topic_percentages pct counts n of
                Inl e \<Rightarrow> Inl e
              | Inr ps \<Rightarrow> Inr ((topic, pct c n) # ps))
      else topic_percentages pct counts n)"

text \<open>The five lines of each entry, numbered from \<open>i\<close> (\<^verbatim>\<open>enumerate(..., 1)\<close>).\<close>

fun format_output :: "(nat \<Rightarrow> 'f \<Rightarrow> string) \<Rightarrow> nat \<Rightarrow> (string \<times> 'f) list \<Rightarrow> string list" where
  "format_output fmt i [] = []"
| "format_output fmt i ((topic, p) # entries) =
     [''TOPIC '' @ str_nat i @ '': '' @ topic,
      ''Description: Predominantly negative mentions related to '' @ lower topic,
      ''Sentiment: Negative'',
      ''Prevalence: '' @ fmt 1 p @ ''%'',
      []] @ format_output fmt (Suc i) entries"

text \<open>\<^verbatim>\<open>sorted_topics[:5]\<close>, when the comprehension does not raise.\<close>

definition sorted_topics ::
  "(nat \<Rightarrow> nat \<Rightarrow> 'f::linorder) \<Rightarrow> string list \<Rightarrow> error + (string \<times> 'f) list" where
  "sorted_topics pct texts =
     (case topic_percentages pct (topic_counts texts) (length texts) of
        Inl e \<Rightarrow> Inl e
      | Inr ps \<Rightarrow> Inr (sorted_reverse snd ps))"

definition extract_topics_rule_based ::
  "(nat \<Rightarrow> nat \<Rightarrow> 'f::linorder) \<Rightarrow> (nat \<Rightarrow> 'f \<Rightarrow> string) \<Rightarrow> string list \<Rightarrow> error + string" where
  "extract_topics_rule_based pct fmt texts =
     (case sorted_topics pct texts of
        Inl e \<Rightarrow> Inl e
      | Inr st \<Rightarrow> Inr (join [CHR 0x0A] (format_output fmt 1 (take 5 st))))"

text \<open>The number of texts that contain at least one keyword of a list: what the claim
  about the report calls the match count of a topic.\<close>

definition match_count :: "string list \<Rightarrow> string list \<Rightarrow> nat" where
  "match_count keywords texts = length (filter (\<lambda>text. any_in keywords (lower text)) texts)"

section \<open>Executive summary (03_ai_insights.py)\<close>

text \<open>
  The columns the summary reads: \<^verbatim>\<open>Score\<close>, \<^verbatim>\<open>sentiment_category\<close> and, when the frame has
  it, \<^verbatim>\<open>ai_category\<close>. Whether the column exists is a property of the frame, not of a row.
\<close>

record scored_review = review +
  sentiment_category :: string
  ai_category :: string

record summary_df =
  has_ai_category :: bool
  df_rows :: "scored_review list"

text \<open>\<^verbatim>\<open>sentiment_dist.get(cat, 0) * 100\<close>, formatted with \<^verbatim>\<open>.0f\<close>:
  \<^verbatim>\<open>value_counts(normalize=True)\<close> has no entry for a category with no row, and then the
  value is the integer 0.\<close>

definition sentiment_pct_text ::
  "(nat \<Rightarrow> nat \<Rightarrow> 'f) \<Rightarrow> (nat \<Rightarrow> 'f \<Rightarrow> string) \<Rightarrow> scored_review list \<Rightarrow> string \<Rightarrow> string" where
  "sentiment_pct_text pct fmt rows cat =
     (let k = length (filter (\<lambda>r. sentiment_category r = cat) rows)
      in if k = 0 then ''0'' else fmt 0 (pct k (length rows)))"

text \<open>\<^verbatim>\<open>df['Score'].mean()\<close>, formatted with \<^verbatim>\<open>.2f\<close>: missing scores are skipped, and the
  mean of no value is NaN, which formats as \<^verbatim>\<open>nan\<close>.\<close>

definition avg_rating_text ::
  "(int list \<Rightarrow> 'f) \<Rightarrow> (nat \<Rightarrow> 'f \<Rightarrow> string) \<Rightarrow> scored_review list \<Rightarrow> string" where
  "avg_rating_text mean fmt rows =
     (let scores = List.map_filter Score rows
      in if scores = [] then ''nan'' else fmt 2 (mean scores))"

text \<open>The issues phrase. \<^verbatim>\<open>value_counts()\<close> is the library's ranking of the values of a
  column with their counts; it is the parameter \<open>value_counts\<close>.\<close>

definition issues_text ::
  "(nat \<Rightarrow> nat \<Rightarrow> 'f) \<Rightarrow> (nat \<Rightarrow> 'f \<Rightarrow> string) \<Rightarrow> (string list \<Rightarrow> (string \<times> nat) list)
     \<Rightarrow> summary_df \<Rightarrow> string" where
  "issues_text pct fmt value_counts df =
     (if has_ai_category df then
        (let neg_df = filter (\<lambda>r. sentiment_category r = ''Negative'') (df_rows df) in
         if 0 < length neg_df then
           join '', ''
             (map (\<lambda>(cat, c). cat @ '' ('' @ fmt 0 (pct c (length neg_df)) @ ''% of negative reviews)'')
                  (take 3 (value_counts (map ai_category neg_df))))
         else ''product quality, shipping, and customer service'')
      else ''product quality, shipping, and customer service'')"

definition para1 :: "string \<Rightarrow> string \<Rightarrow> string \<Rightarrow> string \<Rightarrow> string \<Rightarrow> string" where
  "para1 total_reviews avg_rating pos_pct neg_pct neu_pct =
     ''Analysis of '' @ total_reviews @ '' customer reviews reveals a rating average of ''
     @ avg_rating @ '' out of 5 stars, with '' @ pos_pct @ ''% expressing positive sentiment, ''
     @ neg_pct @ ''% negative, and '' @ neu_pct
     @ ''% neutral. This distribution suggests that while the majority of customers are satisfied, there is a significant segment experiencing issues that require attention.''"

definition para2 :: "string \<Rightarrow> string" where
  "para2 issues =
     ''The primary concerns identified in negative feedback center around '' @ issues
     @ ''. These recurring themes represent the most critical areas for improvement and offer clear opportunities to enhance customer satisfaction. Addressing these specific pain points could potentially convert a substantial portion of dissatisfied customers into brand advocates.''"

definition para3 :: "string" where
  "para3 =
     ''Moving forward, we recommend prioritizing improvements in the areas with highest negative mention rates. Implementing targeted solutions for these top issues could result in measurable improvements to both customer satisfaction scores and repeat purchase rates. Regular monitoring of review sentiment will help track the effectiveness of any corrective measures implemented.''"

text \<open>The function has no \<^verbatim>\<open>raise\<close> and no check of its input; its one division is
  guarded by \<^verbatim>\<open>len(neg_df) > 0\<close>. The result type still has the error side, so that
  "raises" is a statement about the model.\<close>

definition generate_executive_summary_template ::
  "(nat \<Rightarrow> nat \<Rightarrow> 'f) \<Rightarrow> (int list \<Rightarrow> 'f) \<Rightarrow> (nat \<Rightarrow> 'f \<Rightarrow> string)
     \<Rightarrow> (string list \<Rightarrow> (string \<times> nat) list) \<Rightarrow> summary_df \<Rightarrow> error + string" where
  "generate_executive_summary_template pct mean fmt value_counts df =
     (let total_reviews = length (df_rows df);
          avg_rating = avg_rating_text mean fmt (df_rows df);
          issues = issues_text pct fmt value_counts df;
          pos_pct = sentiment_pct_text pct fmt (df_rows df) ''Positive'';
          neg_pct = sentiment_pct_text pct fmt (df_rows df) ''Negative'';
          neu_pct = sentiment_pct_text pct fmt (df_rows df) ''Neutral''
      in Inr (para1 (fmt_thousands total_reviews) avg_rating pos_pct neg_pct neu_pct
              @ [CHR 0x0A, CHR 0x0A] @ para2 issues @ [CHR 0x0A, CHR 0x0A] @ para3))"

text \<open>A ranking to evaluate the model with: the distinct values in order of first
  appearance, sorted by falling count.\<close>

definition count_values :: "string list \<Rightarrow> (string \<times> nat) list" where
  "count_values xs =
     sorted_reverse snd (map (\<lambda>x. (x, length (filter (\<lambda>y. y = x) xs))) (rev (remdups (rev xs))))"

section \<open>Properties of the string primitives\<close>

lemma str_in_sublist: "str_in w s = sublist w s"
  by (induction s) (simp_all add: sublist_Cons_right)

lemma str_in_iff: "str_in w s \<longleftrightarrow> (\<exists>p q. s = p @ w @ q)"
  by (simp add: str_in_sublist sublist_def)

lemma lower_char_idem: "lower_char (lower_char c) = lower_char c"
  by (simp add: lower_char_def is_upper_def)

lemma not_upper_lower_char: "\<not> is_upper (lower_char c)"
  by (simp add: lower_char_def is_upper_def)

lemma lower_idem: "lower (lower s) = lower s"
  by (simp add: lower_def lower_char_idem)

lemma any_in_mono: "set ka \<subseteq> set kb \<Longrightarrow> any_in ka t \<Longrightarrow> any_in kb t"
  by (auto simp: any_in_def list_ex_iff)

section \<open>Properties of the topic categoriser\<close>

lemma categorize_first_match:
  "categorize_review_rule_based s = first_match priority_rules (lower s)"
  by (simp add: categorize_review_rule_based_def priority_rules_def)

lemma first_match_labels:
  "first_match rules t \<in> insert ''Other'' (set (map fst rules))"
  by (induction rules t rule: first_match.induct) auto

text \<open>
  C6. For every text the categoriser returns exactly one of the seven topic labels: the
  label of the first rule, in the order Shipping/Delivery, Customer Service, Product
  Quality, Taste/Flavor, Price/Value, Packaging, whose keyword list matches the lowercased
  text, and Other when none matches. A text with a shipping keyword is Shipping/Delivery,
  also when it has a quality keyword.
\<close>

theorem categorize_priority:
  "categorize_review_rule_based s = first_match priority_rules (lower s)
   \<and> map fst priority_rules @ [''Other''] = topic_labels
   \<and> distinct topic_labels
   \<and> categorize_review_rule_based s \<in> set topic_labels
   \<and> (any_in shipping_words (lower s) \<and> any_in quality_words (lower s) \<longrightarrow>
        categorize_review_rule_based s = ''Shipping/Delivery'')"
proof -
  have a: "categorize_review_rule_based s = first_match priority_rules (lower s)"
    by (rule categorize_first_match)
  have b: "map fst priority_rules @ [''Other''] = topic_labels"
    by (simp add: priority_rules_def topic_labels_def)
  have c: "distinct topic_labels"
    by (simp add: topic_labels_def)
  have d: "categorize_review_rule_based s \<in> set topic_labels"
  proof -
    have "first_match priority_rules (lower s) \<in> set (map fst priority_rules @ [''Other''])"
      using first_match_labels [of priority_rules "lower s"] by simp
    then show ?thesis by (simp only: a b)
  qed
  have e: "any_in shipping_words (lower s) \<Longrightarrow>
        categorize_review_rule_based s = ''Shipping/Delivery''"
    by (simp add: categorize_review_rule_based_def)
  from a b c d e show ?thesis by blast
qed

theorem categorize_priority_witness:
  "any_in shipping_words (lower ''The package arrived BROKEN'')
   \<and> any_in quality_words (lower ''The package arrived BROKEN'')
   \<and> categorize_review_rule_based ''The package arrived BROKEN'' = ''Shipping/Delivery''"
proof -
  have h1: "any_in shipping_words (lower ''The package arrived BROKEN'')" by code_simp
  have h2: "any_in quality_words (lower ''The package arrived BROKEN'')" by code_simp
  from h1 h2 categorize_priority [of "''The package arrived BROKEN''"] show ?thesis by blast
qed

text \<open>
  C9. Topic categorisation is case-insensitive: a text and its lowercase form get the same
  category, and so do "SHIPPING delay" and "shipping delay".
\<close>

theorem categorize_case_insensitive:
  "categorize_review_rule_based s = categorize_review_rule_based (lower s)
   \<and> categorize_review_rule_based ''SHIPPING delay''
       = categorize_review_rule_based ''shipping delay''"
proof -
  have a: "\<And>t. categorize_review_rule_based t = categorize_review_rule_based (lower t)"
    by (simp add: categorize_review_rule_based_def lower_idem)
  have "lower ''SHIPPING delay'' = ''shipping delay''" by code_simp
  with a [of "''SHIPPING delay''"] a show ?thesis by simp
qed

text \<open>
  C10. Matching is substring containment with no word boundary: the text "I love
  Chocolate" contains the word "chocolate", the only keyword of either component that
  occurs in it is "late" (inside "chocolate"), and it is categorised as Shipping/Delivery.
\<close>

theorem chocolate_is_shipping:
  "str_in ''chocolate'' (lower ''I love Chocolate'')
   \<and> str_in ''late'' ''chocolate''
   \<and> remdups (filter (\<lambda>k. str_in k (lower ''I love Chocolate'')) all_keywords) = [''late'']
   \<and> categorize_review_rule_based ''I love Chocolate'' = ''Shipping/Delivery''"
  by code_simp

text \<open>
  C3, as claimed: for every topic and text, the categoriser's keyword list matches iff the
  topic report's does. It fails: "this is bad" matches Product Quality in the topic report
  (keyword "bad") and not in the categoriser.
\<close>

theorem bad_is_quality_in_report_only:
  "matches_topic topic_keywords ''Product Quality'' ''this is bad'' = Some True
   \<and> matches_topic priority_rules ''Product Quality'' ''this is bad'' = Some False"
  by code_simp

lemma report_keywords_superset:
  "map_of priority_rules T = Some ka \<Longrightarrow>
     \<exists>kb. map_of topic_keywords T = Some kb \<and> set ka \<subseteq> set kb"
  by (auto simp: priority_rules_def topic_keywords_def shipping_words_def service_words_def
        quality_words_def taste_words_def price_words_def packaging_words_def
      split: if_splits)

text \<open>
  C3, amended. The two components have keyword lists for the same six topics, and each
  list of the categoriser is contained in the topic report's list for the same topic. So a
  text that matches a topic in the categoriser matches it in the topic report; the
  converse does not hold.
\<close>

theorem categorizer_match_implies_report_match:
  "set (map fst priority_rules) = set (map fst topic_keywords)
   \<and> (\<forall>ka. map_of priority_rules T = Some ka \<longrightarrow>
         (\<exists>kb. map_of topic_keywords T = Some kb \<and> set ka \<subseteq> set kb))
   \<and> (matches_topic priority_rules T s = Some True \<longrightarrow>
         matches_topic topic_keywords T s = Some True)"
proof -
  have a: "set (map fst priority_rules) = set (map fst topic_keywords)"
    by (auto simp: priority_rules_def topic_keywords_def)
  have c: "matches_topic topic_keywords T s = Some True"
    if m: "matches_topic priority_rules T s = Some True"
  proof -
    from m obtain ka where ka: "map_of priority_rules T = Some ka" "any_in ka (lower s)"
      by (auto simp: matches_topic_def)
    from report_keywords_superset [OF ka(1)] obtain kb
      where kb: "map_of topic_keywords T = Some kb" "set ka \<subseteq> set kb" by blast
    from any_in_mono [OF kb(2) ka(2)] kb(1) show ?thesis
      by (simp add: matches_topic_def)
  qed
  from a c report_keywords_superset show ?thesis by blast
qed

theorem categorizer_match_implies_report_match_witness:
  "map_of priority_rules ''Product Quality'' = Some quality_words
   \<and> matches_topic priority_rules ''Product Quality'' ''Poor QUALITY'' = Some True
   \<and> matches_topic topic_keywords ''Product Quality'' ''Poor QUALITY'' = Some True"
proof -
  have h1: "map_of priority_rules ''Product Quality'' = Some quality_words"
    by (simp add: priority_rules_def)
  have h2: "matches_topic priority_rules ''Product Quality'' ''Poor QUALITY'' = Some True"
    by code_simp
  from h1 h2 categorizer_match_implies_report_match [of "''Product Quality''" "''Poor QUALITY''"]
  show ?thesis by blast
qed

section \<open>Properties of the cleaner\<close>

lemma set_strip: "set (strip s) \<subseteq> set s"
proof
  fix x assume "x \<in> set (strip s)"
  then have "x \<in> set (dropWhile is_space (rev (dropWhile is_space s)))"
    by (simp add: strip_def lstrip_def rstrip_def)
  then have "x \<in> set (dropWhile is_space s)"
    using set_dropWhileD by fastforce
  then show "x \<in> set s" by (rule set_dropWhileD)
qed

lemma strip_last: "strip s \<noteq> [] \<Longrightarrow> \<not> is_space (last (strip s))"
  by (simp add: strip_def lstrip_def rstrip_def last_rev hd_dropWhile)

lemma strip_hd:
  assumes "strip s \<noteq> []"
  shows "\<not> is_space (hd (strip s))"
proof -
  let ?u = "dropWhile is_space s"
  let ?d = "dropWhile is_space (rev ?u)"
  from assms have d: "?d \<noteq> []" by (simp add: strip_def lstrip_def rstrip_def)
  have u: "?u \<noteq> []"
  proof
    assume "?u = []"
    with d show False by simp
  qed
  have "rev ?u = takeWhile is_space (rev ?u) @ ?d" by simp
  then have "last (rev ?u) = last ?d" using d by (metis last_appendR)
  then have "last ?d = hd ?u" by (simp add: last_rev)
  moreover have "hd (strip s) = last ?d"
    by (simp add: strip_def lstrip_def rstrip_def hd_rev)
  ultimately show ?thesis using hd_dropWhile [OF u] by simp
qed

lemma strip_id:
  assumes "t \<noteq> []" "\<not> is_space (hd t)" "\<not> is_space (last t)"
  shows "strip t = t"
proof -
  have a: "dropWhile is_space t = t" using assms(2) by (simp add: dropWhile_eq_self_iff)
  have "dropWhile is_space (rev t) = rev t"
    using assms(3) by (simp add: dropWhile_eq_self_iff hd_rev)
  with a show ?thesis by (simp add: strip_def lstrip_def rstrip_def)
qed

lemma lower_no_upper: "c \<in> set (lower s) \<Longrightarrow> \<not> is_upper c"
  by (auto simp: lower_def not_upper_lower_char)

lemma lower_id: "\<forall>c\<in>set t. \<not> is_upper c \<Longrightarrow> lower t = t"
  by (simp add: lower_def lower_char_def map_idI)

lemma clean_frame_kept:
  "clean_frame df = map (\<lambda>(i, r). (i, clean_row r)) (kept_rows df)"
  by (simp add: clean_frame_def kept_rows_def add_features_def filter_short_def str_strip_def
      str_lower_def clean_row_def filter_map comp_def case_prod_unfold option.map_comp
      Let_def split: option.splits cong: filter_cong)

lemma drop_seen_mem:
  "x \<in> set (drop_seen seen df) \<Longrightarrow> Text (snd x) \<notin> set seen \<and> x \<in> set df"
  by (induction seen df rule: drop_seen.induct) (auto split: if_splits)

lemma drop_seen_distinct: "distinct (map (\<lambda>x. Text (snd x)) (drop_seen seen df))"
  by (induction seen df rule: drop_seen.induct) (auto dest: drop_seen_mem)

lemma drop_seen_first:
  "x \<notin> set xs \<Longrightarrow> x \<in> set (drop_seen seen (xs @ x # ys)) \<Longrightarrow> q \<in> set xs
     \<Longrightarrow> Text (snd q) \<noteq> Text (snd x)"
proof (induction xs arbitrary: seen)
  case Nil
  then show ?case by simp
next
  case (Cons a xs)
  obtain i r where a: "a = (i, r)" by (cases a)
  show ?case
  proof (cases "Text r \<in> set seen")
    case True
    with Cons.prems a have in': "x \<in> set (drop_seen seen (xs @ x # ys))" by simp
    from drop_seen_mem [OF in'] True a have "Text (snd a) \<noteq> Text (snd x)" by auto
    with Cons.IH [OF _ in'] Cons.prems show ?thesis by auto
  next
    case False
    with Cons.prems a have in': "x \<in> set (drop_seen (Text r # seen) (xs @ x # ys))" by auto
    from drop_seen_mem [OF in'] a have "Text (snd a) \<noteq> Text (snd x)" by auto
    with Cons.IH [OF _ in'] Cons.prems show ?thesis by auto
  qed
qed


lemma range_index_mem:
  "(l, r) \<in> set (range_index rows) \<Longrightarrow> l < length rows \<and> r = rows ! l"
  by (auto simp: range_index_def set_zip)

lemma range_index_nth: "l < length rows \<Longrightarrow> range_index rows ! l = (l, rows ! l)"
  by (simp add: range_index_def)

lemma range_index_take_mem:
  "x \<in> set (take l (range_index rows)) \<Longrightarrow> fst x < l"
  by (auto simp: range_index_def take_zip set_zip)

lemma df_sample_subset:
  assumes "\<And>n seed df s. sample n seed df = Inr s \<Longrightarrow> set s \<subseteq> set df"
    and "df_sample sample sample_size df = Inr s"
  shows "set s \<subseteq> set df"
  using assms by (auto simp: df_sample_def split: option.splits if_splits)

lemma clean_reviews_Inr:
  "clean_reviews sample sample_size rows = Inr out \<Longrightarrow>
     \<exists>s. df_sample sample sample_size (range_index rows) = Inr s
          \<and> out = map (\<lambda>(i, r). (i, clean_row r)) (kept_rows s)"
  by (auto simp: clean_reviews_def clean_frame_kept split: sum.splits)

lemma kept_rows_mem:
  "(i, r) \<in> set (kept_rows df) \<Longrightarrow>
     (\<exists>t. Text r = Some t \<and> 20 < length (strip (lower t))) \<and> Score r \<noteq> None
     \<and> (i, r) \<in> set (drop_duplicates (dropna df)) \<and> (i, r) \<in> set (dropna df) \<and> (i, r) \<in> set df"
  by (auto simp: kept_rows_def drop_duplicates_def dropna_def split: option.splits
      dest: drop_seen_mem)

lemma kept_rows_distinct: "distinct (map (\<lambda>x. Text (snd x)) (kept_rows df))"
  by (simp add: kept_rows_def drop_duplicates_def distinct_map_filter drop_seen_distinct)

lemma Text_clean_row: "Text (clean_row r) = map_option (\<lambda>t. strip (lower t)) (Text r)"
  by (simp add: clean_row_def Let_def)

lemma dropna_first:
  assumes x: "x \<in> set (drop_duplicates (dropna (range_index rows)))"
    and k: "k < fst x" and score: "Score (rows ! k) \<noteq> None" and txt_k: "Text (rows ! k) \<noteq> None"
  shows "Text (rows ! k) \<noteq> Text (snd x)"
proof -
  let ?ri = "range_index rows"
  let ?P = "\<lambda>(i, r). Text r \<noteq> None \<and> Score r \<noteq> None"
  let ?l = "fst x"
  from x have xin: "x \<in> set (dropna ?ri)"
    using drop_seen_mem by (fastforce simp: drop_duplicates_def)
  then have xri: "x \<in> set ?ri" and Px: "?P x" by (auto simp: dropna_def)
  from xri have l: "?l < length rows" and xr: "snd x = rows ! ?l"
    using range_index_mem [of "fst x" "snd x" rows] by auto
  have len: "length ?ri = length rows" by (simp add: range_index_def)
  have xnth: "?ri ! ?l = x" using l xr by (simp add: range_index_nth prod_eq_iff)
  have decomp: "?ri = take ?l ?ri @ x # drop (Suc ?l) ?ri"
    using l len xnth by (metis id_take_nth_drop)
  let ?xs = "filter ?P (take ?l ?ri)"
  let ?ys = "filter ?P (drop (Suc ?l) ?ri)"
  have dn: "dropna ?ri = ?xs @ x # ?ys"
  proof -
    have "dropna ?ri = filter ?P (take ?l ?ri @ x # drop (Suc ?l) ?ri)"
      using decomp by (simp add: dropna_def)
    with Px show ?thesis by simp
  qed
  have notin: "x \<notin> set ?xs"
    using range_index_take_mem [of x "?l" rows] by auto
  have "(k, rows ! k) \<in> set (take ?l ?ri)"
  proof -
    have "k < length (take ?l ?ri)" using k l len by simp
    moreover have "take ?l ?ri ! k = (k, rows ! k)"
      using k l by (simp add: range_index_nth)
    ultimately show ?thesis by (metis nth_mem)
  qed
  with score txt_k have q: "(k, rows ! k) \<in> set ?xs" by simp
  from x dn have "x \<in> set (drop_seen [] (?xs @ x # ?ys))" by (simp add: drop_duplicates_def)
  from drop_seen_first [OF notin this q] show ?thesis by simp
qed

text \<open>
  C8. Every record that survives the cleaner has a text of more than 20 characters, with
  no whitespace at either end and no uppercase letter (stripping or lowercasing it again
  changes nothing); its \<open>review_length\<close> is the length of that text.
\<close>

theorem cleaned_text_invariant:
  assumes run: "clean_reviews sample sample_size rows = Inr out"
    and mem: "(i, c) \<in> set out"
  shows "\<exists>t. Text c = Some t \<and> 20 < length t
            \<and> \<not> is_space (hd t) \<and> \<not> is_space (last t) \<and> strip t = t
            \<and> (\<forall>ch\<in>set t. \<not> is_upper ch) \<and> lower t = t
            \<and> review_length c = Some (length t)"
proof -
  from clean_reviews_Inr [OF run] obtain s
    where out: "out = map (\<lambda>(i, r). (i, clean_row r)) (kept_rows s)" by blast
  with mem obtain r where r: "(i, r) \<in> set (kept_rows s)" and c: "c = clean_row r" by auto
  from kept_rows_mem [OF r] obtain t0
    where t0: "Text r = Some t0" and long: "20 < length (strip (lower t0))" by blast
  let ?t = "strip (lower t0)"
  from long have ne: "?t \<noteq> []" by auto
  have up: "\<forall>ch\<in>set ?t. \<not> is_upper ch"
    using set_strip [of "lower t0"] lower_no_upper [of _ t0] by blast
  have "Text c = Some ?t" using c t0 by (simp add: Text_clean_row)
  moreover have "review_length c = Some (length ?t)"
    using c t0 by (simp add: clean_row_def Let_def)
  moreover have "strip ?t = ?t"
    using ne strip_hd [OF ne] strip_last [OF ne] by (rule strip_id)
  moreover have "lower ?t = ?t" using up by (rule lower_id)
  ultimately show ?thesis
    using long up strip_hd [OF ne] strip_last [OF ne] by blast
qed

theorem cleaned_text_invariant_witness:
  "clean_reviews sample_first None example_rows =
     Inr [(0, \<lparr>Text = Some ''great product, would buy again!'', Score = Some 5, Time = None,
               review_length = Some 31, word_count = Some 5\<rparr>),
          (1, \<lparr>Text = Some ''great product, would buy again!'', Score = Some 4, Time = None,
               review_length = Some 31, word_count = Some 5\<rparr>)]
   \<and> (\<exists>t. Some ''great product, would buy again!'' = Some t \<and> 20 < length t
            \<and> \<not> is_space (hd t) \<and> \<not> is_space (last t) \<and> strip t = t
            \<and> (\<forall>ch\<in>set t. \<not> is_upper ch) \<and> lower t = t
            \<and> Some (31::nat) = Some (length t))"
proof -
  let ?c = "\<lparr>Text = Some ''great product, would buy again!'', Score = Some 5, Time = None,
               review_length = Some 31, word_count = Some 5\<rparr>"
  let ?d = "\<lparr>Text = Some ''great product, would buy again!'', Score = Some 4, Time = None,
               review_length = Some 31, word_count = Some 5\<rparr>"
  have run: "clean_reviews sample_first None example_rows = Inr [(0, ?c), (1, ?d)]"
    by code_simp
  have mem: "(0, ?c) \<in> set [(0, ?c), (1, ?d)]" by simp
  from cleaned_text_invariant [OF run mem] run show ?thesis by simp
qed

text \<open>
  C1, as claimed: no two surviving records have the same cleaned text. It fails: duplicates
  are dropped before the text is lowercased and stripped, so two rows whose texts differ
  only in case both survive, with the same cleaned text.
\<close>

theorem same_cleaned_text_survives_twice:
  "clean_reviews sample_first None
     [\<lparr>Text = Some ''Great Product, would buy again!'', Score = Some 5, Time = None\<rparr>,
      \<lparr>Text = Some ''great product, would buy again!'', Score = Some 4, Time = None\<rparr>]
   = Inr [(0, \<lparr>Text = Some ''great product, would buy again!'', Score = Some 5, Time = None,
               review_length = Some 31, word_count = Some 5\<rparr>),
          (1, \<lparr>Text = Some ''great product, would buy again!'', Score = Some 4, Time = None,
               review_length = Some 31, word_count = Some 5\<rparr>)]"
  by code_simp

text \<open>
  C1, amended. Duplicates are dropped by the text as read, before it is normalised. Every
  surviving record carries the label of the input row it was made from and the normalised
  text of that row; the rows of any two surviving records have different texts as read;
  and when no sample is drawn, the row of a surviving record is the first row with that
  text among the rows that have a score. (The sampler only has to return rows of the frame
  it is given.)
\<close>

theorem survivors_distinct_raw_text:
  assumes run: "clean_reviews sample sample_size rows = Inr out"
    and sub: "\<And>n seed df s. sample n seed df = Inr s \<Longrightarrow> set s \<subseteq> set df"
  shows "(\<forall>m<length out. fst (out ! m) < length rows
            \<and> Text (snd (out ! m))
                = map_option (\<lambda>t. strip (lower t)) (Text (rows ! fst (out ! m))))
       \<and> (\<forall>i j. i < j \<and> j < length out \<longrightarrow>
             Text (rows ! fst (out ! i)) \<noteq> Text (rows ! fst (out ! j)))
       \<and> (df_sample sample sample_size (range_index rows) = Inr (range_index rows) \<longrightarrow>
            (\<forall>m<length out. \<forall>k<fst (out ! m). Score (rows ! k) \<noteq> None \<longrightarrow>
                Text (rows ! k) \<noteq> Text (rows ! fst (out ! m))))"
proof -
  from clean_reviews_Inr [OF run] obtain s
    where s: "df_sample sample sample_size (range_index rows) = Inr s"
      and out: "out = map (\<lambda>(i, r). (i, clean_row r)) (kept_rows s)" by blast
  let ?K = "kept_rows s"
  have len: "length out = length ?K" by (simp add: out)
  have sub_ri: "set s \<subseteq> set (range_index rows)" using sub s by (rule df_sample_subset)
  have lab: "fst (out ! m) = fst (?K ! m)" and row: "snd (out ! m) = clean_row (snd (?K ! m))"
    if "m < length out" for m
    using that by (simp_all add: out case_prod_unfold)
  have src: "fst (?K ! m) < length rows \<and> snd (?K ! m) = rows ! fst (?K ! m)
             \<and> Text (snd (?K ! m)) \<noteq> None"
    if m: "m < length out" for m
  proof -
    from m len have "(fst (?K ! m), snd (?K ! m)) \<in> set ?K" by simp
    from kept_rows_mem [OF this] sub_ri
    have "(fst (?K ! m), snd (?K ! m)) \<in> set (range_index rows)"
      and "Text (snd (?K ! m)) \<noteq> None" by auto
    with range_index_mem [of "fst (?K ! m)" "snd (?K ! m)" rows] show ?thesis by simp
  qed
  have a: "\<forall>m<length out. fst (out ! m) < length rows
            \<and> Text (snd (out ! m))
                = map_option (\<lambda>t. strip (lower t)) (Text (rows ! fst (out ! m)))"
    using lab row src by (simp add: Text_clean_row)
  have b: "Text (rows ! fst (out ! i)) \<noteq> Text (rows ! fst (out ! j))"
    if ij: "i < j" "j < length out" for i j
  proof -
    from ij have i: "i < length out" by simp
    have "i < length (map (\<lambda>x. Text (snd x)) ?K)" "j < length (map (\<lambda>x. Text (snd x)) ?K)"
      using ij i len by simp_all
    with kept_rows_distinct [of s] ij(1)
    have "map (\<lambda>x. Text (snd x)) ?K ! i \<noteq> map (\<lambda>x. Text (snd x)) ?K ! j"
      by (metis nth_eq_iff_index_eq less_irrefl)
    then have "Text (snd (?K ! i)) \<noteq> Text (snd (?K ! j))" using ij i len by simp
    with src [OF i] src [OF ij(2)] lab [OF i] lab [OF ij(2)] show ?thesis by simp
  qed
  have c: "Text (rows ! k) \<noteq> Text (rows ! fst (out ! m))"
    if pass: "df_sample sample sample_size (range_index rows) = Inr (range_index rows)"
      and m: "m < length out" and k: "k < fst (out ! m)" and sc: "Score (rows ! k) \<noteq> None"
    for m k
  proof (cases "Text (rows ! k)")
    case None
    with src [OF m] lab [OF m] show ?thesis by metis
  next
    case (Some t)
    from pass s have s_eq: "s = range_index rows" by simp
    from m len have "(fst (?K ! m), snd (?K ! m)) \<in> set ?K" by simp
    from kept_rows_mem [OF this] s_eq
    have x: "?K ! m \<in> set (drop_duplicates (dropna (range_index rows)))" by simp
    from k lab [OF m] have k': "k < fst (?K ! m)" by simp
    from dropna_first [OF x k' sc] Some src [OF m] lab [OF m] show ?thesis by simp
  qed
  from a b c show ?thesis by blast
qed

theorem survivors_distinct_raw_text_witness:
  "clean_reviews sample_first None example_rows =
     Inr [(0, \<lparr>Text = Some ''great product, would buy again!'', Score = Some 5, Time = None,
               review_length = Some 31, word_count = Some 5\<rparr>),
          (1, \<lparr>Text = Some ''great product, would buy again!'', Score = Some 4, Time = None,
               review_length = Some 31, word_count = Some 5\<rparr>)]
   \<and> df_sample sample_first None (range_index example_rows) = Inr (range_index example_rows)
   \<and> Some ''great product, would buy again!''
       = map_option (\<lambda>t. strip (lower t)) (Text (example_rows ! 1))
   \<and> Text (example_rows ! 0) \<noteq> Text (example_rows ! 1)
   \<and> Score (example_rows ! 0) \<noteq> None
   \<and> Text (example_rows ! 0) = Text (example_rows ! 2)"
proof -
  let ?out = "[(0::nat, \<lparr>Text = Some ''great product, would buy again!'', Score = Some 5,
               Time = None, review_length = Some 31, word_count = Some 5\<rparr>),
          (1, \<lparr>Text = Some ''great product, would buy again!'', Score = Some 4, Time = None,
               review_length = Some 31, word_count = Some 5\<rparr>)]"
  have run: "clean_reviews sample_first None example_rows = Inr ?out"
    by code_simp
  have sub: "\<And>n seed df s. sample_first n seed df = Inr s \<Longrightarrow> set s \<subseteq> set (df :: review frame)"
    by (auto simp: sample_first_def split: if_splits dest: in_set_takeD)
  have pass: "df_sample sample_first None (range_index example_rows)
                = Inr (range_index example_rows)"
    by (simp add: df_sample_def)
  have "\<forall>m<length ?out. fst (?out ! m) < length example_rows
            \<and> Text (snd (?out ! m))
                = map_option (\<lambda>t. strip (lower t)) (Text (example_rows ! fst (?out ! m)))"
    by (rule survivors_distinct_raw_text [OF run, THEN conjunct1]) (rule sub)
  then have "1 < length ?out \<longrightarrow> Text (snd (?out ! 1))
                = map_option (\<lambda>t. strip (lower t)) (Text (example_rows ! fst (?out ! 1)))"
    by blast
  then have a: "Some ''great product, would buy again!''
       = map_option (\<lambda>t. strip (lower t)) (Text (example_rows ! 1))"
    by simp
  have sc: "Score (example_rows ! 0) \<noteq> None" by (simp add: example_rows_def)
  have "df_sample sample_first None (range_index example_rows) = Inr (range_index example_rows)
        \<longrightarrow> (\<forall>m<length ?out. \<forall>k<fst (?out ! m). Score (example_rows ! k) \<noteq> None \<longrightarrow>
                Text (example_rows ! k) \<noteq> Text (example_rows ! fst (?out ! m)))"
    by (rule survivors_distinct_raw_text [OF run, THEN conjunct2, THEN conjunct2]) (rule sub)
  with pass have "1 < length ?out \<and> 0 < fst (?out ! 1) \<and> Score (example_rows ! 0) \<noteq> None
      \<longrightarrow> Text (example_rows ! 0) \<noteq> Text (example_rows ! fst (?out ! 1))"
    by blast
  with sc have first: "Text (example_rows ! 0) \<noteq> Text (example_rows ! 1)" by simp
  have "\<forall>i j. i < j \<and> j < length ?out \<longrightarrow>
             Text (example_rows ! fst (?out ! i)) \<noteq> Text (example_rows ! fst (?out ! j))"
    by (rule survivors_distinct_raw_text [OF run, THEN conjunct2, THEN conjunct1])
       (rule sub)
  then have "(0::nat) < 1 \<and> 1 < length ?out \<longrightarrow>
      Text (example_rows ! fst (?out ! 0)) \<noteq> Text (example_rows ! fst (?out ! 1))"
    by blast
  then have d: "Text (example_rows ! 0) \<noteq> Text (example_rows ! 1)" by simp
  have e: "Text (example_rows ! 0) = Text (example_rows ! 2)" by (simp add: example_rows_def)
  from run pass a d sc e show ?thesis by blast
qed

text \<open>
  C4. Whenever \<open>sample_size\<close> is given and smaller than the number of input records,
  exactly \<open>sample_size\<close> records are drawn; the docstring calls \<open>sample_size\<close> the number
  of reviews to sample and names \<^verbatim>\<open>None\<close> as the way to get all data. The code departs
  from this at \<open>sample_size = 0\<close>: Python's truth test takes 0 for no sample size, the
  sampler is never called, and every record is passed on. Here the input has one record, 0
  is smaller than 1, and the cleaner returns that record, whatever the sampler is.
\<close>

theorem sample_size_zero_passes_all:
  "(0::int) < int (length
       [\<lparr>Text = Some ''Great Product, would buy again!'', Score = Some 5, Time = None\<rparr>])
   \<and> df_sample sample (Some 0)
       (range_index
          [\<lparr>Text = Some ''Great Product, would buy again!'', Score = Some 5, Time = None\<rparr>])
     = Inr [(0, \<lparr>Text = Some ''Great Product, would buy again!'', Score = Some 5,
                 Time = None\<rparr>)]
   \<and> clean_reviews sample (Some 0)
       [\<lparr>Text = Some ''Great Product, would buy again!'', Score = Some 5, Time = None\<rparr>]
     = Inr [(0, \<lparr>Text = Some ''great product, would buy again!'', Score = Some 5, Time = None,
                 review_length = Some 31, word_count = Some 5\<rparr>)]"
proof -
  let ?rows = "[\<lparr>Text = Some ''Great Product, would buy again!'', Score = Some 5, Time = None\<rparr>]"
  have pass: "df_sample sample (Some 0) df = Inr df" for df :: "review frame"
    by (simp add: df_sample_def)
  have idx: "range_index ?rows = [(0, \<lparr>Text = Some ''Great Product, would buy again!'',
      Score = Some 5, Time = None\<rparr>)]"
    by (simp add: range_index_def)
  have cf: "clean_frame (range_index ?rows)
      = [(0, \<lparr>Text = Some ''great product, would buy again!'', Score = Some 5, Time = None,
              review_length = Some 31, word_count = Some 5\<rparr>)]"
    by code_simp
  have "clean_reviews sample (Some 0) ?rows = Inr (clean_frame (range_index ?rows))"
    by (simp add: clean_reviews_def pass)
  with cf pass [of "range_index ?rows"] idx show ?thesis by simp
qed

section \<open>Properties of the sentiment category\<close>

text \<open>
  C5. The sentiment category is a function of the compound score alone, with the fixed
  thresholds 0.05 and -0.05: Positive iff the score is at least 0.05, Negative iff it is
  at most -0.05, Neutral iff neither; the first two never hold together, so the three
  cases are exhaustive and exclusive. For a finite score these are the comparisons of the
  number itself; not-a-number is Neutral.
\<close>

theorem categorize_sentiment_thresholds:
  "(categorize_sentiment score = ''Positive'' \<longleftrightarrow> float_ge score (5 / 100))
   \<and> (categorize_sentiment score = ''Negative'' \<longleftrightarrow> float_le score (- (5 / 100)))
   \<and> (categorize_sentiment score = ''Neutral'' \<longleftrightarrow>
        \<not> float_ge score (5 / 100) \<and> \<not> float_le score (- (5 / 100)))
   \<and> \<not> (float_ge score (5 / 100) \<and> float_le score (- (5 / 100)))
   \<and> (categorize_sentiment (Fin x) = ''Positive'' \<longleftrightarrow> 5 / 100 \<le> x)
   \<and> (categorize_sentiment (Fin x) = ''Negative'' \<longleftrightarrow> x \<le> - (5 / 100))
   \<and> (categorize_sentiment (Fin x) = ''Neutral'' \<longleftrightarrow> - (5 / 100) < x \<and> x < 5 / 100)
   \<and> categorize_sentiment NaN = ''Neutral''"
proof -
  have excl: "\<not> (float_ge s (5 / 100) \<and> float_le s (- (5 / 100)))" for s
    by (cases s) auto
  have pos: "categorize_sentiment s = ''Positive'' \<longleftrightarrow> float_ge s (5 / 100)" for s
    by (simp add: categorize_sentiment_def)
  have neg: "categorize_sentiment s = ''Negative'' \<longleftrightarrow> float_le s (- (5 / 100))" for s
    using excl [of s] by (auto simp: categorize_sentiment_def)
  have neu: "categorize_sentiment s = ''Neutral'' \<longleftrightarrow>
        \<not> float_ge s (5 / 100) \<and> \<not> float_le s (- (5 / 100))" for s
    by (simp add: categorize_sentiment_def)
  have fin: "(categorize_sentiment (Fin x) = ''Neutral'' \<longleftrightarrow> - (5 / 100) < x \<and> x < 5 / 100)"
    using neu [of "Fin x"] by auto
  have nan: "categorize_sentiment NaN = ''Neutral''"
    by (simp add: categorize_sentiment_def)
  from excl [of score] pos [of score] neg [of score] neu [of score]
    pos [of "Fin x"] neg [of "Fin x"] fin nan
  show ?thesis by simp
qed

section \<open>Properties of the topic report\<close>

lemma distinct_topic_keywords: "distinct (map fst topic_keywords)"
  by (simp add: topic_keywords_def)

lemma count_text_eq:
  "distinct (map fst items) \<Longrightarrow>
   count_text t items counts =
     map (\<lambda>(k, c). (k, c + (case map_of items k of
                               None \<Rightarrow> 0
                             | Some kws \<Rightarrow> if any_in kws t then 1 else 0))) counts"
proof (induction items arbitrary: counts)
  case Nil
  show ?case by (simp add: case_prod_unfold)
next
  case (Cons item items)
  obtain topic kws where item: "item = (topic, kws)" by (cases item)
  from Cons.prems item have fresh: "map_of items topic = None" and d: "distinct (map fst items)"
    by (auto simp: map_of_eq_None_iff)
  show ?case
    using fresh by (auto simp: item Cons.IH [OF d] incr_def case_prod_unfold)
qed

lemma topic_counts_fold:
  assumes d: "distinct (map fst items)"
  shows "foldl (\<lambda>counts text. count_text (lower text) items counts)
               (map (\<lambda>p. (fst p, m p)) items) texts
         = map (\<lambda>p. (fst p, m p + match_count (snd p) texts)) items"
proof (induction texts arbitrary: m)
  case Nil
  show ?case by (simp add: match_count_def)
next
  case (Cons x texts)
  have step: "count_text (lower x) items (map (\<lambda>p. (fst p, m p)) items)
        = map (\<lambda>p. (fst p, m p + (if any_in (snd p) (lower x) then 1 else 0))) items"
  proof -
    have "map_of items (fst p) = Some (snd p)" if "p \<in> set items" for p
      using map_of_is_SomeI [OF d, of "fst p" "snd p"] that by simp
    then show ?thesis
      by (simp add: count_text_eq [OF d] case_prod_unfold comp_def)
  qed
  show ?case
    by (simp add: step Cons.IH match_count_def)
qed

lemma topic_counts_eq:
  "topic_counts texts = map (\<lambda>(topic, kws). (topic, match_count kws texts)) topic_keywords"
  using topic_counts_fold [OF distinct_topic_keywords, of "\<lambda>p. 0" texts]
  by (simp add: topic_counts_def case_prod_unfold)

lemma topic_percentages_eq:
  "\<forall>(k, c)\<in>set counts. c \<le> n \<Longrightarrow>
   topic_percentages pct counts n
     = Inr (map (\<lambda>(k, c). (k, pct c n)) (filter (\<lambda>(k, c). 0 < c) counts))"
  by (induction counts) auto

lemma match_count_le: "match_count kws texts \<le> length texts"
  by (simp add: match_count_def)

lemma sorted_reverse_props:
  "set (sorted_reverse f xs) = set xs"
  "length (sorted_reverse f xs) = length xs"
  "sorted_wrt (\<lambda>a b. f b \<le> f a) (sorted_reverse f xs)"
proof -
  show "set (sorted_reverse f xs) = set xs" by (simp add: sorted_reverse_def)
  show "length (sorted_reverse f xs) = length xs" by (simp add: sorted_reverse_def)
  have "sorted (map f (sort_key f (rev xs)))" by (rule sorted_sort_key)
  then have "sorted_wrt (\<lambda>a b. f a \<le> f b) (sort_key f (rev xs))"
    by (simp add: sorted_wrt_map)
  then show "sorted_wrt (\<lambda>a b. f b \<le> f a) (sorted_reverse f xs)"
    by (simp add: sorted_reverse_def sorted_wrt_rev)
qed

lemma sorted_topics_eq:
  "sorted_topics pct texts =
     Inr (sorted_reverse snd
           (map (\<lambda>(k, c). (k, pct c (length texts)))
                (filter (\<lambda>(k, c). 0 < c)
                   (map (\<lambda>(topic, kws). (topic, match_count kws texts)) topic_keywords))))"
proof -
  have "\<forall>(k, c)\<in>set (topic_counts texts). c \<le> length texts"
    by (auto simp: topic_counts_eq match_count_le)
  from topic_percentages_eq [OF this, of pct] show ?thesis
    by (simp add: sorted_topics_def topic_counts_eq)
qed

lemma format_output_length: "length (format_output fmt k entries) = 5 * length entries"
  by (induction fmt k entries rule: format_output.induct) simp_all

lemma format_output_nth:
  "i < length entries \<Longrightarrow>
     format_output fmt k entries ! (5 * i) = ''TOPIC '' @ str_nat (k + i) @ '': '' @ fst (entries ! i)
     \<and> format_output fmt k entries ! (5 * i + 3) = ''Prevalence: '' @ fmt 1 (snd (entries ! i)) @ ''%''"
proof (induction fmt k entries arbitrary: i rule: format_output.induct)
  case (1 fmt k)
  then show ?case by simp
next
  case (2 fmt k topic p entries)
  show ?case
  proof (cases i)
    case 0
    then show ?thesis by simp
  next
    case (Suc j)
    with "2.prems" have j: "j < length entries" by simp
    have a: "5 * i = 5 + 5 * j" and b: "5 * i + 3 = 5 + (5 * j + 3)" using Suc by simp_all
    have c: "([l1, l2, l3, l4, l5] @ rest) ! (5 + n) = rest ! n"
      for l1 l2 l3 l4 l5 :: string and rest n
      by (simp add: nth_append)
    from "2.IH" [OF j] show ?thesis
      unfolding a b format_output.simps c by (simp add: Suc add.commute)
  qed
qed

text \<open>
  C7. The topic report never raises. Its entries are the first five of the topics sorted
  by falling percentage; so it has at most 5 entries, in descending order of percentage,
  each for a topic whose match count \<open>k\<close> among the texts is not zero and with the
  percentage \<open>pct k n\<close> (the value of \<^verbatim>\<open>count / total * 100\<close>), \<open>n\<close> the number of texts;
  and the entry's prevalence line is that value in the format \<^verbatim>\<open>.1f\<close>, followed by a
  percent sign.
\<close>

theorem topic_report_entries:
  fixes pct :: "nat \<Rightarrow> nat \<Rightarrow> 'f::linorder"
  shows "(\<exists>st. sorted_topics pct texts = Inr st)
    \<and> (\<forall>st. sorted_topics pct texts = Inr st \<longrightarrow>
          extract_topics_rule_based pct fmt texts
            = Inr (join [CHR 0x0A] (format_output fmt 1 (take 5 st)))
          \<and> length (take 5 st) \<le> 5
          \<and> sorted_wrt (\<lambda>a b. snd b \<le> snd a) (take 5 st)
          \<and> (\<forall>(topic, p)\<in>set (take 5 st).
                \<exists>kws. map_of topic_keywords topic = Some kws
                      \<and> 0 < match_count kws texts
                      \<and> p = pct (match_count kws texts) (length texts))
          \<and> (\<forall>i<length (take 5 st).
                format_output fmt 1 (take 5 st) ! (5 * i)
                  = ''TOPIC '' @ str_nat (1 + i) @ '': '' @ fst (take 5 st ! i)
                \<and> format_output fmt 1 (take 5 st) ! (5 * i + 3)
                  = ''Prevalence: '' @ fmt 1 (snd (take 5 st ! i)) @ ''%''))"
proof -
  let ?ps = "map (\<lambda>(k, c). (k, pct c (length texts)))
                (filter (\<lambda>(k, c). 0 < c)
                   (map (\<lambda>(topic, kws). (topic, match_count kws texts)) topic_keywords))"
  let ?st = "sorted_reverse snd ?ps"
  have st: "sorted_topics pct texts = Inr ?st" by (rule sorted_topics_eq)
  have a: "extract_topics_rule_based pct fmt texts
            = Inr (join [CHR 0x0A] (format_output fmt 1 (take 5 ?st)))"
    by (simp add: extract_topics_rule_based_def st)
  have b: "sorted_wrt (\<lambda>a b. snd b \<le> snd a) (take 5 ?st)"
    using sorted_reverse_props(3) [of snd ?ps] by (rule sorted_wrt_take)
  have c: "\<exists>kws. map_of topic_keywords topic = Some kws
                      \<and> 0 < match_count kws texts
                      \<and> p = pct (match_count kws texts) (length texts)"
    if "(topic, p) \<in> set (take 5 ?st)" for topic p
  proof -
    from that have "(topic, p) \<in> set ?st" by (rule in_set_takeD)
    then have "(topic, p) \<in> set ?ps" by (simp only: sorted_reverse_props(1))
    then obtain kws where "(topic, kws) \<in> set topic_keywords" "0 < match_count kws texts"
      "p = pct (match_count kws texts) (length texts)" by auto
    with map_of_is_SomeI [OF distinct_topic_keywords] show ?thesis by blast
  qed
  have d: "format_output fmt 1 (take 5 ?st) ! (5 * i)
                  = ''TOPIC '' @ str_nat (1 + i) @ '': '' @ fst (take 5 ?st ! i)
                \<and> format_output fmt 1 (take 5 ?st) ! (5 * i + 3)
                  = ''Prevalence: '' @ fmt 1 (snd (take 5 ?st ! i)) @ ''%''"
    if "i < length (take 5 ?st)" for i
    using that by (rule format_output_nth)
  have "length (take 5 ?st) \<le> 5" by simp
  with a b c d have "extract_topics_rule_based pct fmt texts
            = Inr (join [CHR 0x0A] (format_output fmt 1 (take 5 ?st)))
          \<and> length (take 5 ?st) \<le> 5
          \<and> sorted_wrt (\<lambda>a b. snd b \<le> snd a) (take 5 ?st)
          \<and> (\<forall>(topic, p)\<in>set (take 5 ?st).
                \<exists>kws. map_of topic_keywords topic = Some kws
                      \<and> 0 < match_count kws texts
                      \<and> p = pct (match_count kws texts) (length texts))
          \<and> (\<forall>i<length (take 5 ?st).
                format_output fmt 1 (take 5 ?st) ! (5 * i)
                  = ''TOPIC '' @ str_nat (1 + i) @ '': '' @ fst (take 5 ?st ! i)
                \<and> format_output fmt 1 (take 5 ?st) ! (5 * i + 3)
                  = ''Prevalence: '' @ fmt 1 (snd (take 5 ?st ! i)) @ ''%'')"
    by (intro conjI ballI allI impI) (auto simp only:)
  with st show ?thesis by simp
qed

theorem topic_report_entries_witness:
  "sorted_topics exact_pct [''Bad taste and LATE'', ''arrived late'', ''too expensive'']
     = Inr [(''Shipping/Delivery'', 200 / 3), (''Product Quality'', 100 / 3),
            (''Price/Value'', 100 / 3), (''Taste/Flavor'', 100 / 3)]
   \<and> extract_topics_rule_based exact_pct fixed_fmt
        [''Bad taste and LATE'', ''arrived late'', ''too expensive'']
     = Inr (join [CHR 0x0A] (format_output fixed_fmt 1
              [(''Shipping/Delivery'', 200 / 3), (''Product Quality'', 100 / 3),
               (''Price/Value'', 100 / 3), (''Taste/Flavor'', 100 / 3)]))
   \<and> (\<exists>kws. map_of topic_keywords ''Shipping/Delivery'' = Some kws
          \<and> 0 < match_count kws [''Bad taste and LATE'', ''arrived late'', ''too expensive'']
          \<and> 200 / 3 = exact_pct
                (match_count kws [''Bad taste and LATE'', ''arrived late'', ''too expensive''])
                (length [''Bad taste and LATE'', ''arrived late'', ''too expensive'']))
   \<and> format_output fixed_fmt 1
        [(''Shipping/Delivery'', 200 / 3), (''Product Quality'', 100 / 3),
         (''Price/Value'', 100 / 3), (''Taste/Flavor'', 100 / 3)] ! 3 = ''Prevalence: 66.7%''"
proof -
  let ?texts = "[''Bad taste and LATE'', ''arrived late'', ''too expensive'']"
  let ?st = "[(''Shipping/Delivery'', 200 / 3 :: rat), (''Product Quality'', 100 / 3),
            (''Price/Value'', 100 / 3), (''Taste/Flavor'', 100 / 3)]"
  have st: "sorted_topics exact_pct ?texts = Inr ?st" by code_simp
  have t5: "take 5 ?st = ?st" by simp
  from topic_report_entries [of exact_pct ?texts fixed_fmt] st
  have all: "extract_topics_rule_based exact_pct fixed_fmt ?texts
            = Inr (join [CHR 0x0A] (format_output fixed_fmt 1 (take 5 ?st)))
          \<and> (\<forall>(topic, p)\<in>set (take 5 ?st).
                \<exists>kws. map_of topic_keywords topic = Some kws
                      \<and> 0 < match_count kws ?texts
                      \<and> p = exact_pct (match_count kws ?texts) (length ?texts))"
    by blast
  then have b: "extract_topics_rule_based exact_pct fixed_fmt ?texts
            = Inr (join [CHR 0x0A] (format_output fixed_fmt 1 ?st))"
    by (simp only: t5)
  have "(''Shipping/Delivery'', 200 / 3) \<in> set (take 5 ?st)" by simp
  with all have c: "\<exists>kws. map_of topic_keywords ''Shipping/Delivery'' = Some kws
          \<and> 0 < match_count kws ?texts
          \<and> 200 / 3 = exact_pct (match_count kws ?texts) (length ?texts)"
    by blast
  have d: "format_output fixed_fmt 1 ?st ! 3 = ''Prevalence: 66.7%''" by code_simp
  from st b c d show ?thesis by blast
qed

section \<open>Properties of the executive summary\<close>

lemma fmt_thousands_0: "fmt_thousands 0 = ''0''"
  by code_simp

text \<open>
  C2, as claimed: summarising an empty dataset raises a validation error. It does not:
  the function returns a summary text, with the rating average printed as "nan".
\<close>

theorem empty_summary_returns_text:
  "generate_executive_summary_template exact_pct exact_mean fixed_fmt count_values
     \<lparr>has_ai_category = True, df_rows = []\<rparr>
   = Inr (para1 ''0'' ''nan'' ''0'' ''0'' ''0'' @ [CHR 0x0A, CHR 0x0A]
          @ para2 ''product quality, shipping, and customer service'' @ [CHR 0x0A, CHR 0x0A]
          @ para3)
   \<and> take 118 (para1 ''0'' ''nan'' ''0'' ''0'' ''0'')
     = ''Analysis of 0 customer reviews reveals a rating average of nan out of 5 stars, with 0% expressing positive sentiment, ''"
  by code_simp

text \<open>
  C2, amended. The summary has no validation and never raises. For an empty dataset,
  with or without the category column, it returns the three paragraphs with a total of 0,
  the rating average "nan", 0% for each sentiment and the fixed issues phrase.
\<close>

theorem empty_summary_is_degenerate_text:
  "generate_executive_summary_template pct mean fmt value_counts
     \<lparr>has_ai_category = b, df_rows = []\<rparr>
   = Inr (para1 ''0'' ''nan'' ''0'' ''0'' ''0'' @ [CHR 0x0A, CHR 0x0A]
          @ para2 ''product quality, shipping, and customer service'' @ [CHR 0x0A, CHR 0x0A]
          @ para3)
   \<and> generate_executive_summary_template pct mean fmt value_counts df \<noteq> Inl e"
  by (simp add: generate_executive_summary_template_def avg_rating_text_def
      sentiment_pct_text_def issues_text_def fmt_thousands_0 List.map_filter_simps)

end
